theory Spec2Isabelle
  imports Complex_Main
begin

section \<open>A visualiser of 2x2 linear maps: geometry, expression evaluation, frame transform, render loop\<close>

text \<open>
  A shallow embedding of the program. Python floats (and the \<^verbatim>\<open>float32\<close> entries of
  the numpy arrays) are modelled by real numbers: rounding, overflow to infinity and NaN are
  outside the model, and so is every difference they make to a test (a divisor that is zero
  on the reals only). Python integers are \<^typ>\<open>int\<close>.
\<close>

subsection \<open>Geometry (\<^verbatim>\<open>make_grid\<close>, \<^verbatim>\<open>make_vector\<close>)\<close>

text \<open>
  \<^verbatim>\<open>range(-n, n + 1)\<close> is the list \<open>[-n..n]\<close> (empty when \<open>n < 0\<close>); the loop body
  appends two groups of four coordinates to \<^verbatim>\<open>lines\<close>; \<^verbatim>\<open>np.array(lines, dtype=np.float32)\<close>
  turns the integers into floats.
\<close>

definition make_grid :: "int \<Rightarrow> real list" where
  "make_grid n =
     map real_of_int
       (fold (\<lambda>i lines. (lines @ [i, - n, i, n]) @ [- n, i, n, i]) [- n..n] [])"

definition radians :: "real \<Rightarrow> real" where
  "radians deg = deg * pi / 180"

text \<open>\<^verbatim>\<open>math.atan2(y, x)\<close> on the reals: the angle of the point \<open>(x, y)\<close> in \<open>(-\<pi>, \<pi>]\<close>, and \<open>0\<close>
  at the origin.\<close>

definition atan2 :: "real \<Rightarrow> real \<Rightarrow> real" where
  "atan2 y x =
     (if 0 < x then arctan (y / x)
      else if x < 0 then (if 0 \<le> y then arctan (y / x) + pi else arctan (y / x) - pi)
      else if 0 < y then pi / 2
      else if y < 0 then - (pi / 2)
      else 0)"

definition make_vector :: "real \<Rightarrow> real \<Rightarrow> real list" where
  "make_vector x y =
     (let vertices = [0, 0, x, y];
          head_len = 3 / 10;
          head_ang = radians 20;
          angle = atan2 y x;
          left = angle + pi - head_ang;
          right = angle + pi + head_ang;
          x2 = x; y2 = y;
          vertices = vertices @ [x2, y2, x2 + head_len * cos left, y2 + head_len * sin left];
          vertices = vertices @ [x2, y2, x2 + head_len * cos right, y2 + head_len * sin right]
      in vertices)"

text \<open>
  How the buffers are read when drawn: \<^verbatim>\<open>glVertexAttribPointer(0, 2, GL_FLOAT, ...)\<close> takes two
  floats per vertex, and \<^verbatim>\<open>glDrawArrays(GL_LINES, first, count)\<close> joins the vertices
  \<open>first, ..., first + count - 1\<close> two by two into line segments.
\<close>

type_synonym vertex = "real \<times> real"
type_synonym segment = "vertex \<times> vertex"

fun vertices_of :: "real list \<Rightarrow> vertex list" where
  "vertices_of (x # y # rest) = (x, y) # vertices_of rest"
| "vertices_of _ = []"

fun gl_lines :: "vertex list \<Rightarrow> segment list" where
  "gl_lines (p # q # rest) = (p, q) # gl_lines rest"
| "gl_lines _ = []"

definition draw_arrays_lines :: "nat \<Rightarrow> nat \<Rightarrow> real list \<Rightarrow> segment list" where
  "draw_arrays_lines first count buf = gl_lines (take count (drop first (vertices_of buf)))"




subsection \<open>Expression evaluation (\<^verbatim>\<open>safe_eval\<close>)\<close>

text \<open>
  \<^verbatim>\<open>safe_eval\<close> hands the text of an entry field to Python's built-in \<^verbatim>\<open>eval\<close>, converts
  the result with \<^verbatim>\<open>float\<close> and catches \<^verbatim>\<open>Exception\<close>. The built-in is modelled on a
  fragment of Python's expression language: decimal literals, single-quoted string literals
  without escapes, names, attribute access, calls with positional arguments, unary \<open>+\<close> and
  \<open>-\<close>, binary \<open>+\<close>, \<open>-\<close>, \<open>*\<close>, \<open>/\<close> and parentheses, over integers, floats, strings, the
  \<^verbatim>\<open>math\<close> module with \<^verbatim>\<open>math.pi\<close>, \<^verbatim>\<open>math.sin\<close>, \<^verbatim>\<open>math.cos\<close>, \<^verbatim>\<open>math.sqrt\<close>, and the
  empty dictionary. Whatever lies outside the fragment has the outcome \<open>Unsupported\<close>: the
  model says nothing about it. The outcome \<open>Raises\<close> is a Python exception and \<open>Returns\<close> a
  value.

  The exception classes are those the fragment can raise, all derived from
  \<^verbatim>\<open>Exception\<close>, and the three built-in classes that derive from \<^verbatim>\<open>BaseException\<close> only,
  which \<^verbatim>\<open>except Exception\<close> does not catch.
\<close>

datatype exn =
  SyntaxError | NameError | TypeError | ZeroDivisionError | ValueError
  | SystemExit | KeyboardInterrupt | GeneratorExit

fun is_Exception :: "exn \<Rightarrow> bool" where
  "is_Exception SystemExit = False"
| "is_Exception KeyboardInterrupt = False"
| "is_Exception GeneratorExit = False"
| "is_Exception _ = True"

datatype 'a outcome = Unsupported | Raises exn | Returns 'a

text \<open>Python values of the fragment. A dictionary is an association list.\<close>

datatype pyval =
  VInt int | VFloat real | VStr string | VModule string | VBuiltin string
  | VDict "(string \<times> pyval) list"

text \<open>Abstract syntax, named as in Python's \<^verbatim>\<open>ast\<close> module.\<close>

datatype unaryop = UAdd | USub
datatype operator = Add | Sub | Mult | Div

datatype expr =
  Constant pyval
  | Name string
  | Attribute expr string
  | Call expr "expr list"
  | UnaryOp unaryop expr
  | BinOp expr operator expr

text \<open>
  Tokens, named as in Python's \<^verbatim>\<open>token\<close> module. The tokenizer accepts the space as the
  only white space and ASCII only. It gives up (\<open>None\<close>) on every character or literal form it
  does not know: keywords, string prefixes, double-quoted or adjacent strings, escapes,
  exponents, underscores in numbers, integers with a leading zero, \<^verbatim>\<open>**\<close> and \<^verbatim>\<open>//\<close>.
\<close>

datatype token =
  NAME string | NUMBER pyval | STRING string
  | PLUS | MINUS | STAR | SLASH | LPAR | RPAR | DOT | COMMA

definition is_digit :: "char \<Rightarrow> bool" where
  "is_digit c = (let k = of_char c :: nat in 48 \<le> k \<and> k \<le> 57)"

definition is_ident_start :: "char \<Rightarrow> bool" where
  "is_ident_start c =
     (let k = of_char c :: nat in (65 \<le> k \<and> k \<le> 90) \<or> (97 \<le> k \<and> k \<le> 122) \<or> k = 95)"

definition is_ident_char :: "char \<Rightarrow> bool" where
  "is_ident_char c = (is_ident_start c \<or> is_digit c)"

definition is_plain :: "char \<Rightarrow> bool" where
  "is_plain c = (let k = of_char c :: nat in 32 \<le> k \<and> k \<le> 126 \<and> k \<noteq> 92 \<and> k \<noteq> 39)"

definition kwlist :: "string list" where
  "kwlist =
     [''False'', ''None'', ''True'', ''and'', ''as'', ''assert'', ''async'', ''await'',
      ''break'', ''class'', ''continue'', ''def'', ''del'', ''elif'', ''else'', ''except'',
      ''finally'', ''for'', ''from'', ''global'', ''if'', ''import'', ''in'', ''is'',
      ''lambda'', ''nonlocal'', ''not'', ''or'', ''pass'', ''raise'', ''return'', ''try'',
      ''while'', ''with'', ''yield'', ''__debug__'']"

definition digits_value :: "string \<Rightarrow> nat" where
  "digits_value ds = foldl (\<lambda>n c. 10 * n + (of_char c - 48)) 0 ds"

definition decimal_value :: "string \<Rightarrow> string \<Rightarrow> real" where
  "decimal_value ip fp = real (digits_value ip) + real (digits_value fp) / 10 ^ length fp"

definition literal_ends :: "string \<Rightarrow> bool" where
  "literal_ends rest = (case rest of [] \<Rightarrow> True | d # _ \<Rightarrow> \<not> (is_ident_char d \<or> d = CHR ''.''))"

definition quote_next :: "string \<Rightarrow> bool" where
  "quote_next rest = (case rest of [] \<Rightarrow> False | d # _ \<Rightarrow> d = CHR 0x27 \<or> d = CHR 0x22)"

definition next_token :: "char \<Rightarrow> string \<Rightarrow> (token \<times> string) option" where
  "next_token c cs =
     (if is_ident_start c then
        (let name = c # takeWhile is_ident_char cs;
             rest = dropWhile is_ident_char cs
         in if name \<in> set kwlist \<or> quote_next rest then None
            else Some (NAME name, rest))
      else if is_digit c then
        (let ip = c # takeWhile is_digit cs;
             rest = dropWhile is_digit cs
         in if take 1 rest = ''.'' then
              (let fp = takeWhile is_digit (drop 1 rest);
                   rest2 = dropWhile is_digit (drop 1 rest)
               in if literal_ends rest2
                  then Some (NUMBER (VFloat (decimal_value ip fp)), rest2)
                  else None)
            else if literal_ends rest \<and> (ip = ''0'' \<or> c \<noteq> CHR ''0'')
            then Some (NUMBER (VInt (int (digits_value ip))), rest)
            else None)
      else if c = CHR 0x27 then
        (let body = takeWhile is_plain cs;
             rest = dropWhile is_plain cs
         in if take 1 rest = [CHR 0x27] \<and> \<not> quote_next (drop 1 rest)
            then Some (STRING body, drop 1 rest)
            else None)
      else if c = CHR ''+'' then Some (PLUS, cs)
      else if c = CHR ''-'' then Some (MINUS, cs)
      else if c = CHR ''*'' then (if take 1 cs = ''*'' then None else Some (STAR, cs))
      else if c = CHR ''/'' then (if take 1 cs = ''/'' then None else Some (SLASH, cs))
      else if c = CHR ''('' then Some (LPAR, cs)
      else if c = CHR '')'' then Some (RPAR, cs)
      else if c = CHR ''.'' then Some (DOT, cs)
      else if c = CHR '','' then Some (COMMA, cs)
      else None)"

text \<open>The test \<open>length rest \<le> length cs\<close> always succeeds (lemma \<open>next_token_consumes\<close>
  below); it makes the recursion visibly terminating.\<close>

fun tokenize :: "string \<Rightarrow> token list option" where
  "tokenize [] = Some []"
| "tokenize (c # cs) =
     (if c = CHR '' '' then tokenize cs
      else case next_token c cs of
             None \<Rightarrow> None
           | Some (tk, rest) \<Rightarrow>
               if length rest \<le> length cs then map_option (Cons tk) (tokenize rest) else None)"


text \<open>
  A recursive-descent parser for the grammar
  \<^verbatim>\<open>
  arith   ::= term (('+' | '-') term)*
  term    ::= factor (('*' | '/') factor)*
  factor  ::= ('+' | '-') factor | atom trailer*
  trailer ::= '.' NAME | '(' [arith (',' arith)*] ')'
  atom    ::= NAME | NUMBER | STRING | '(' arith ')'
  \<close>
  which is Python's expression grammar cut down to the tokens above. The first argument of
  every function is fuel, one unit per call; \<open>parse\<close> treats a parse that fails or runs out
  of fuel as outside the fragment.
\<close>

definition peek :: "token \<Rightarrow> token list \<Rightarrow> bool" where
  "peek tk ts = (take 1 ts = [tk])"

function (sequential) parse_atom :: "nat \<Rightarrow> token list \<Rightarrow> (expr \<times> token list) option"
  and parse_trailers :: "nat \<Rightarrow> expr \<Rightarrow> token list \<Rightarrow> (expr \<times> token list) option"
  and parse_args :: "nat \<Rightarrow> token list \<Rightarrow> (expr list \<times> token list) option"
  and parse_factor :: "nat \<Rightarrow> token list \<Rightarrow> (expr \<times> token list) option"
  and parse_term_rest :: "nat \<Rightarrow> expr \<Rightarrow> token list \<Rightarrow> (expr \<times> token list) option"
  and parse_term :: "nat \<Rightarrow> token list \<Rightarrow> (expr \<times> token list) option"
  and parse_arith_rest :: "nat \<Rightarrow> expr \<Rightarrow> token list \<Rightarrow> (expr \<times> token list) option"
  and parse_arith :: "nat \<Rightarrow> token list \<Rightarrow> (expr \<times> token list) option"
where
  "parse_atom 0 ts = None"
| "parse_atom (Suc k) ts =
     (if peek LPAR ts then
        (case parse_arith k (drop 1 ts) of
           None \<Rightarrow> None
         | Some (e, r) \<Rightarrow> if peek RPAR r then Some (e, drop 1 r) else None)
      else
        (case ts of
           NAME n # r \<Rightarrow> Some (Name n, r)
         | NUMBER v # r \<Rightarrow> Some (Constant v, r)
         | STRING s # r \<Rightarrow> Some (Constant (VStr s), r)
         | _ \<Rightarrow> None))"
| "parse_trailers 0 e ts = None"
| "parse_trailers (Suc k) e ts =
     (if peek DOT ts then
        (case drop 1 ts of
           NAME a # r \<Rightarrow> parse_trailers k (Attribute e a) r
         | _ \<Rightarrow> None)
      else if peek LPAR ts then
        (if peek RPAR (drop 1 ts) then parse_trailers k (Call e []) (drop 2 ts)
         else
           (case parse_args k (drop 1 ts) of
              None \<Rightarrow> None
            | Some (args, r) \<Rightarrow> parse_trailers k (Call e args) r))
      else Some (e, ts))"
| "parse_args 0 ts = None"
| "parse_args (Suc k) ts =
     (case parse_arith k ts of
        None \<Rightarrow> None
      | Some (e, r) \<Rightarrow>
          if peek COMMA r then
            (case parse_args k (drop 1 r) of
               None \<Rightarrow> None
             | Some (es, r') \<Rightarrow> Some (e # es, r'))
          else if peek RPAR r then Some ([e], drop 1 r)
          else None)"
| "parse_factor 0 ts = None"
| "parse_factor (Suc k) ts =
     (if peek PLUS ts then
        (case parse_factor k (drop 1 ts) of
           None \<Rightarrow> None
         | Some (e, r) \<Rightarrow> Some (UnaryOp UAdd e, r))
      else if peek MINUS ts then
        (case parse_factor k (drop 1 ts) of
           None \<Rightarrow> None
         | Some (e, r) \<Rightarrow> Some (UnaryOp USub e, r))
      else
        (case parse_atom k ts of
           None \<Rightarrow> None
         | Some (e, r) \<Rightarrow> parse_trailers k e r))"
| "parse_term_rest 0 e ts = None"
| "parse_term_rest (Suc k) e ts =
     (if peek STAR ts then
        (case parse_factor k (drop 1 ts) of
           None \<Rightarrow> None
         | Some (e2, r) \<Rightarrow> parse_term_rest k (BinOp e Mult e2) r)
      else if peek SLASH ts then
        (case parse_factor k (drop 1 ts) of
           None \<Rightarrow> None
         | Some (e2, r) \<Rightarrow> parse_term_rest k (BinOp e Div e2) r)
      else Some (e, ts))"
| "parse_term 0 ts = None"
| "parse_term (Suc k) ts =
     (case parse_factor k ts of
        None \<Rightarrow> None
      | Some (e, r) \<Rightarrow> parse_term_rest k e r)"
| "parse_arith_rest 0 e ts = None"
| "parse_arith_rest (Suc k) e ts =
     (if peek PLUS ts then
        (case parse_term k (drop 1 ts) of
           None \<Rightarrow> None
         | Some (e2, r) \<Rightarrow> parse_arith_rest k (BinOp e Add e2) r)
      else if peek MINUS ts then
        (case parse_term k (drop 1 ts) of
           None \<Rightarrow> None
         | Some (e2, r) \<Rightarrow> parse_arith_rest k (BinOp e Sub e2) r)
      else Some (e, ts))"
| "parse_arith 0 ts = None"
| "parse_arith (Suc k) ts =
     (case parse_term k ts of
        None \<Rightarrow> None
      | Some (e, r) \<Rightarrow> parse_arith_rest k e r)"

  by pat_completeness auto
termination
  by (relation "measure (case_sum (case_sum (case_sum fst fst) (case_sum fst fst))
                                  (case_sum (case_sum fst fst) (case_sum fst fst)))") auto

definition parse :: "token list \<Rightarrow> expr option" where
  "parse ts =
     (case parse_arith (8 * length ts + 8) ts of
        Some (e, []) \<Rightarrow> Some e
      | _ \<Rightarrow> None)"


text \<open>
  Evaluation. A name is looked up in the globals (which are also the locals of \<^verbatim>\<open>eval\<close>)
  and then in the dictionary bound to \<^verbatim>\<open>__builtins__\<close>; a name found in neither raises
  \<^verbatim>\<open>NameError\<close>. The words of \<open>kwlist\<close> are never looked up (Python compiles \<^verbatim>\<open>True\<close>,
  \<^verbatim>\<open>False\<close>, \<^verbatim>\<open>None\<close> and \<^verbatim>\<open>__debug__\<close> to constants): as names they are outside the
  fragment.
\<close>

type_synonym namespace = "(string \<times> pyval) list"

definition load_name :: "namespace \<Rightarrow> string \<Rightarrow> pyval outcome" where
  "load_name g n =
     (case map_of g n of
        Some v \<Rightarrow> Returns v
      | None \<Rightarrow>
          (case map_of g ''__builtins__'' of
             Some (VDict b) \<Rightarrow>
               (case map_of b n of Some v \<Rightarrow> Returns v | None \<Rightarrow> Raises NameError)
           | _ \<Rightarrow> Unsupported))"

definition getattr :: "pyval \<Rightarrow> string \<Rightarrow> pyval outcome" where
  "getattr v a =
     (if v = VModule ''math'' then
        (if a = ''pi'' then Returns (VFloat pi)
         else if a = ''sin'' \<or> a = ''cos'' \<or> a = ''sqrt'' then Returns (VBuiltin a)
         else Unsupported)
      else Unsupported)"

text \<open>The argument conversion of the \<^verbatim>\<open>math\<close> functions: a string is a \<^verbatim>\<open>TypeError\<close>.\<close>

fun as_real :: "pyval \<Rightarrow> real outcome" where
  "as_real (VInt i) = Returns (real_of_int i)"
| "as_real (VFloat x) = Returns x"
| "as_real _ = Raises TypeError"

definition math_function :: "string \<Rightarrow> real \<Rightarrow> pyval outcome" where
  "math_function f x =
     (if f = ''sin'' then Returns (VFloat (sin x))
      else if f = ''cos'' then Returns (VFloat (cos x))
      else if f = ''sqrt'' then (if x < 0 then Raises ValueError else Returns (VFloat (sqrt x)))
      else Unsupported)"

text \<open>Only the \<^verbatim>\<open>math\<close> functions are callable, with exactly one argument.\<close>

fun call :: "pyval \<Rightarrow> pyval list \<Rightarrow> pyval outcome" where
  "call (VBuiltin f) [v] =
     (case as_real v of
        Returns x \<Rightarrow> math_function f x
      | Raises e \<Rightarrow> Raises e
      | Unsupported \<Rightarrow> Unsupported)"
| "call _ _ = Raises TypeError"

fun unary_op :: "unaryop \<Rightarrow> pyval \<Rightarrow> pyval outcome" where
  "unary_op UAdd (VInt i) = Returns (VInt i)"
| "unary_op UAdd (VFloat x) = Returns (VFloat x)"
| "unary_op USub (VInt i) = Returns (VInt (- i))"
| "unary_op USub (VFloat x) = Returns (VFloat (- x))"
| "unary_op _ _ = Unsupported"

text \<open>\<^verbatim>\<open>/\<close> is true division: two integers give a float; a zero divisor raises.\<close>

fun int_op :: "operator \<Rightarrow> int \<Rightarrow> int \<Rightarrow> pyval outcome" where
  "int_op Add i j = Returns (VInt (i + j))"
| "int_op Sub i j = Returns (VInt (i - j))"
| "int_op Mult i j = Returns (VInt (i * j))"
| "int_op Div i j =
     (if j = 0 then Raises ZeroDivisionError else Returns (VFloat (real_of_int i / real_of_int j)))"

fun float_op :: "operator \<Rightarrow> real \<Rightarrow> real \<Rightarrow> pyval outcome" where
  "float_op Add x y = Returns (VFloat (x + y))"
| "float_op Sub x y = Returns (VFloat (x - y))"
| "float_op Mult x y = Returns (VFloat (x * y))"
| "float_op Div x y = (if y = 0 then Raises ZeroDivisionError else Returns (VFloat (x / y)))"

fun bin_op :: "operator \<Rightarrow> pyval \<Rightarrow> pyval \<Rightarrow> pyval outcome" where
  "bin_op op (VInt i) (VInt j) = int_op op i j"
| "bin_op op (VInt i) (VFloat y) = float_op op (real_of_int i) y"
| "bin_op op (VFloat x) (VInt j) = float_op op x (real_of_int j)"
| "bin_op op (VFloat x) (VFloat y) = float_op op x y"
| "bin_op _ _ _ = Unsupported"

text \<open>The callee is evaluated before the arguments, the arguments from left to right, the
  left operand before the right one; the first exception ends the evaluation.\<close>

fun eval_expr :: "namespace \<Rightarrow> expr \<Rightarrow> pyval outcome"
  and eval_args :: "namespace \<Rightarrow> expr list \<Rightarrow> pyval list outcome"
where
  "eval_expr g (Constant v) = Returns v"
| "eval_expr g (Name n) = (if n \<in> set kwlist then Unsupported else load_name g n)"
| "eval_expr g (Attribute e a) =
     (case eval_expr g e of
        Returns v \<Rightarrow> getattr v a
      | Raises x \<Rightarrow> Raises x
      | Unsupported \<Rightarrow> Unsupported)"
| "eval_expr g (Call f args) =
     (case eval_expr g f of
        Returns fv \<Rightarrow>
          (case eval_args g args of
             Returns vs \<Rightarrow> call fv vs
           | Raises x \<Rightarrow> Raises x
           | Unsupported \<Rightarrow> Unsupported)
      | Raises x \<Rightarrow> Raises x
      | Unsupported \<Rightarrow> Unsupported)"
| "eval_expr g (UnaryOp op e) =
     (case eval_expr g e of
        Returns v \<Rightarrow> unary_op op v
      | Raises x \<Rightarrow> Raises x
      | Unsupported \<Rightarrow> Unsupported)"
| "eval_expr g (BinOp l op r) =
     (case eval_expr g l of
        Returns a \<Rightarrow>
          (case eval_expr g r of
             Returns b \<Rightarrow> bin_op op a b
           | Raises x \<Rightarrow> Raises x
           | Unsupported \<Rightarrow> Unsupported)
      | Raises x \<Rightarrow> Raises x
      | Unsupported \<Rightarrow> Unsupported)"
| "eval_args g [] = Returns []"
| "eval_args g (e # es) =
     (case eval_expr g e of
        Returns v \<Rightarrow>
          (case eval_args g es of
             Returns vs \<Rightarrow> Returns (v # vs)
           | Raises x \<Rightarrow> Raises x
           | Unsupported \<Rightarrow> Unsupported)
      | Raises x \<Rightarrow> Raises x
      | Unsupported \<Rightarrow> Unsupported)"

text \<open>
  \<^verbatim>\<open>eval(source, globals)\<close>. A source without any token is a \<^verbatim>\<open>SyntaxError\<close>. Sources of
  more than 200 characters are left out, which keeps every source of the fragment clear of
  the interpreter's limits on nesting depth and on the length of integer literals.
\<close>

definition py_eval :: "string \<Rightarrow> namespace \<Rightarrow> pyval outcome" where
  "py_eval source g =
     (if 200 < length source then Unsupported
      else case tokenize source of
             None \<Rightarrow> Unsupported
           | Some [] \<Rightarrow> Raises SyntaxError
           | Some ts \<Rightarrow>
               (case parse ts of
                  None \<Rightarrow> Unsupported
                | Some e \<Rightarrow> eval_expr g e))"

text \<open>\<^verbatim>\<open>float(v)\<close>: numbers are converted, a string is parsed (here: digits with an optional
  fraction; the empty string is a \<^verbatim>\<open>ValueError\<close>), anything else is a \<^verbatim>\<open>TypeError\<close>.\<close>

definition float_of_str :: "string \<Rightarrow> real outcome" where
  "float_of_str s =
     (let ip = takeWhile is_digit s; rest = dropWhile is_digit s
      in if s = [] then Raises ValueError
         else if ip \<noteq> [] \<and> rest = [] then Returns (decimal_value ip [])
         else if ip \<noteq> [] \<and> take 1 rest = ''.'' \<and> list_all is_digit (drop 1 rest)
         then Returns (decimal_value ip (drop 1 rest))
         else Unsupported)"

fun py_float :: "pyval \<Rightarrow> real outcome" where
  "py_float (VInt i) = Returns (real_of_int i)"
| "py_float (VFloat x) = Returns x"
| "py_float (VStr s) = float_of_str s"
| "py_float _ = Raises TypeError"

text \<open>
  The dictionary \<^verbatim>\<open>{"__builtins__": {}, "math": math, "t": env["t"]}\<close>, the body of the
  \<^verbatim>\<open>try\<close> statement, and \<^verbatim>\<open>safe_eval\<close> itself, for the time \<open>t\<close> of the enclosing iteration.
\<close>

definition eval_globals :: "real \<Rightarrow> namespace" where
  "eval_globals t = [(''__builtins__'', VDict []), (''math'', VModule ''math''), (''t'', VFloat t)]"

definition try_body :: "real \<Rightarrow> string \<Rightarrow> real outcome" where
  "try_body t expr =
     (case py_eval expr (eval_globals t) of
        Returns v \<Rightarrow> py_float v
      | Raises e \<Rightarrow> Raises e
      | Unsupported \<Rightarrow> Unsupported)"

definition safe_eval :: "real \<Rightarrow> string \<Rightarrow> real outcome" where
  "safe_eval t expr =
     (case try_body t expr of
        Raises e \<Rightarrow> if is_Exception e then Returns 0 else Raises e
      | Returns x \<Rightarrow> Returns x
      | Unsupported \<Rightarrow> Unsupported)"

subsection \<open>Shared control state (\<^verbatim>\<open>make_controls\<close>)\<close>

record shared =
  a_expr :: string
  b_expr :: string
  c_expr :: string
  d_expr :: string
  a_scale :: real
  b_scale :: real
  c_scale :: real
  d_scale :: real
  paused :: bool
  show_grid :: bool
  show_arrow :: bool
  t0 :: real

text \<open>The dictionary built by \<^verbatim>\<open>make_controls\<close> when the clock reads \<open>now\<close>, and the
  command of the "Reset t" button.\<close>

definition make_controls :: "real \<Rightarrow> shared" where
  "make_controls now =
     \<lparr>a_expr = ''math.cos(t)'', b_expr = ''math.sin(t)'',
      c_expr = ''-math.sin(t)'', d_expr = ''math.cos(t)'',
      a_scale = 1, b_scale = 1, c_scale = 1, d_scale = 1,
      paused = False, show_grid = True, show_arrow = True, t0 = now\<rparr>"


subsection \<open>Frame transform\<close>

definition obind :: "'a outcome \<Rightarrow> ('a \<Rightarrow> 'b outcome) \<Rightarrow> 'b outcome" where
  "obind m f = (case m of Unsupported \<Rightarrow> Unsupported | Raises e \<Rightarrow> Raises e | Returns x \<Rightarrow> f x)"

text \<open>The array \<^verbatim>\<open>M\<close> of the loop body (built inline there; \<^verbatim>\<open>dtype=np.float32\<close> narrows
  the entries to single precision, which on the reals is no change).\<close>

definition build_matrix :: "real \<Rightarrow> real \<Rightarrow> real \<Rightarrow> real \<Rightarrow> real list list" where
  "build_matrix a b c d = [[a, b, 0, 0], [c, d, 0, 0], [0, 0, 1, 0], [0, 0, 0, 1]]"

text \<open>From the clock to \<^verbatim>\<open>M\<close>: \<^verbatim>\<open>t = time.time() - shared["t0"]\<close>, the four entries
  \<^verbatim>\<open>safe_eval(shared["a_expr"].get()) * shared["a_scale"].get()\<close>, ..., and the array.\<close>

definition frame_transform :: "shared \<Rightarrow> real \<Rightarrow> real list list outcome" where
  "frame_transform sh now =
     (let t = now - t0 sh in
      obind (safe_eval t (a_expr sh)) (\<lambda>va. let a = va * a_scale sh in
      obind (safe_eval t (b_expr sh)) (\<lambda>vb. let b = vb * b_scale sh in
      obind (safe_eval t (c_expr sh)) (\<lambda>vc. let c = vc * c_scale sh in
      obind (safe_eval t (d_expr sh)) (\<lambda>vd. let d = vd * d_scale sh in
      Returns (build_matrix a b c d))))))"

text \<open>The 4x4 identity matrix, as \<^verbatim>\<open>numpy.eye(4)\<close> builds it.\<close>

definition identity4 :: "real list list" where
  "identity4 = map (\<lambda>i. map (\<lambda>j. if i = j then 1 else 0) [0..<4]) [0..<4]"

subsection \<open>The graphics pipeline\<close>

text \<open>
  \<^verbatim>\<open>glUniformMatrix4fv(location, 1, transpose, M)\<close> reads the 16 floats of the array in memory
  order, which for a numpy array is row by row. OpenGL takes them as the columns of the
  uniform when the flag is \<^verbatim>\<open>GL_FALSE\<close> and as its rows when it is \<^verbatim>\<open>GL_TRUE\<close>. The result
  is the list of the rows of the uniform.
\<close>

definition mat4_of_buffer :: "bool \<Rightarrow> real list \<Rightarrow> real list list" where
  "mat4_of_buffer by_rows m =
     (if length m \<noteq> 16 then []
      else if by_rows
      then [[m ! 0, m ! 1, m ! 2, m ! 3], [m ! 4, m ! 5, m ! 6, m ! 7],
            [m ! 8, m ! 9, m ! 10, m ! 11], [m ! 12, m ! 13, m ! 14, m ! 15]]
      else [[m ! 0, m ! 4, m ! 8, m ! 12], [m ! 1, m ! 5, m ! 9, m ! 13],
            [m ! 2, m ! 6, m ! 10, m ! 14], [m ! 3, m ! 7, m ! 11, m ! 15]])"

definition mat_vec :: "real list list \<Rightarrow> real list \<Rightarrow> real list" where
  "mat_vec m v = map (\<lambda>row. sum_list (map2 (*) row v)) m"

text \<open>The vertex shader: \<^verbatim>\<open>gl_Position = uTransform * vec4(aPos, 0.0, 1.0)\<close>.\<close>

definition vertex_shader :: "real list list \<Rightarrow> vertex \<Rightarrow> real list" where
  "vertex_shader uTransform aPos = mat_vec uTransform [fst aPos, snd aPos, 0, 1]"

datatype buffer = vbo_grid | vbo_vec

text \<open>The two vertex buffers, filled once before the loop.\<close>

fun buffer_data :: "buffer \<Rightarrow> real list" where
  "buffer_data vbo_grid = make_grid 10"
| "buffer_data vbo_vec = make_vector 3 1"

text \<open>What an iteration does, in order: the calls to the window system, to the clock and
  to OpenGL, and the calls of \<^verbatim>\<open>safe_eval\<close> with the time they see.\<close>

datatype action =
  PollEvents
  | Sleep real
  | SafeEval string real
  | Clear
  | UniformMatrix4fv bool "real list"
  | Uniform3f real real real
  | BindBuffer buffer
  | VertexAttribPointer
  | EnableVertexAttribArray
  | DrawArrays nat nat
  | SwapBuffers
  | Terminate

type_synonym colour = "real \<times> real \<times> real"

text \<open>The state of the pipeline: the two uniforms, the bound buffer, the buffer attribute
  0 reads, and what has been drawn into the back buffer and the front buffer (the frame on
  screen): for every draw call its colour and its segments after the vertex shader.\<close>

record gl_state =
  uTransform :: "real list list"
  uColor :: colour
  array_buffer :: buffer
  attrib_buffer :: buffer
  back_buffer :: "(colour \<times> (real list \<times> real list) list) list"
  front_buffer :: "(colour \<times> (real list \<times> real list) list) list"

fun exec_action :: "action \<Rightarrow> gl_state \<Rightarrow> gl_state" where
  "exec_action Clear g = g\<lparr>back_buffer := []\<rparr>"
| "exec_action (UniformMatrix4fv by_rows m) g = g\<lparr>uTransform := mat4_of_buffer by_rows m\<rparr>"
| "exec_action (Uniform3f r gr b) g = g\<lparr>uColor := (r, gr, b)\<rparr>"
| "exec_action (BindBuffer buf) g = g\<lparr>array_buffer := buf\<rparr>"
| "exec_action VertexAttribPointer g = g\<lparr>attrib_buffer := array_buffer g\<rparr>"
| "exec_action (DrawArrays first count) g =
     g\<lparr>back_buffer := back_buffer g @
        [(uColor g,
          map (\<lambda>(p, q). (vertex_shader (uTransform g) p, vertex_shader (uTransform g) q))
              (draw_arrays_lines first count (buffer_data (attrib_buffer g))))]\<rparr>"
| "exec_action SwapBuffers g = g\<lparr>front_buffer := back_buffer g, back_buffer := front_buffer g\<rparr>"
| "exec_action _ g = g"

subsection \<open>The render loop\<close>

text \<open>
  One pass through the body of \<^verbatim>\<open>while not glfw.window_should_close(win)\<close>, for the shared
  state \<open>sh\<close> and the clock reading \<open>now\<close>: the shared state after the pass and the actions
  of the pass. An exception that \<^verbatim>\<open>safe_eval\<close> lets through ends the pass.
\<close>

definition iteration :: "shared \<Rightarrow> real \<Rightarrow> (shared \<times> action list) outcome" where
  "iteration sh now =
     (if paused sh then Returns (sh, [PollEvents, Sleep (1 / 100)])
      else
        (let t = now - t0 sh in
         obind (frame_transform sh now) (\<lambda>M.
           Returns (sh,
             [PollEvents,
              SafeEval (a_expr sh) t, SafeEval (b_expr sh) t,
              SafeEval (c_expr sh) t, SafeEval (d_expr sh) t,
              Clear, UniformMatrix4fv False (concat M)]
             @ (if show_grid sh
                then [Uniform3f (1 / 2) (1 / 2) (1 / 2), BindBuffer vbo_grid, VertexAttribPointer,
                      EnableVertexAttribArray,
                      DrawArrays 0 (length (buffer_data vbo_grid) div 2)]
                else [])
             @ (if show_arrow sh
                then [Uniform3f 1 (2 / 10) (2 / 10), BindBuffer vbo_vec, VertexAttribPointer,
                      EnableVertexAttribArray, DrawArrays 0 6]
                else [])
             @ [SwapBuffers]))))"

text \<open>
  The loop, run on a finite list of what it meets at each test of its condition: whether
  the window should close, the shared state as the control panel has left it, and the
  clock. It returns the pipeline state and the actions performed.
\<close>

fun render_loop :: "(bool \<times> shared \<times> real) list \<Rightarrow> gl_state \<Rightarrow> (gl_state \<times> action list) outcome" where
  "render_loop [] g = Returns (g, [])"
| "render_loop ((should_close, sh, now) # rest) g =
     (if should_close then Returns (g, [Terminate])
      else
        (case iteration sh now of
           Returns (sh', acts) \<Rightarrow>
             (case render_loop rest (fold exec_action acts g) of
                Returns (g', later) \<Rightarrow> Returns (g', acts @ later)
              | Raises e \<Rightarrow> Raises e
              | Unsupported \<Rightarrow> Unsupported)
         | Raises e \<Rightarrow> Raises e
         | Unsupported \<Rightarrow> Unsupported))"


section \<open>Properties\<close>

subsection \<open>The grid\<close>











subsection \<open>The evaluator\<close>

lemmas lex_defs = next_token_def is_ident_start_def is_ident_char_def is_digit_def is_plain_def
  kwlist_def quote_next_def literal_ends_def digits_value_def decimal_value_def

lemmas ev_defs = py_eval_def parse_def peek_def load_name_def getattr_def
  math_function_def float_of_str_def eval_globals_def

lemma next_token_consumes: "next_token c cs = Some (tk, rest) \<Longrightarrow> length rest \<le> length cs"
proof -
  have d: "length (dropWhile P xs) \<le> length xs" for P and xs :: string
    by (rule length_dropWhile_le)
  have dd: "length (dropWhile P (drop 1 (dropWhile Q xs))) \<le> length xs" for P Q and xs :: string
    using d [of P "drop 1 (dropWhile Q xs)"] d [of Q xs] by simp
  have d1: "length (drop 1 (dropWhile P xs)) \<le> length xs" for P and xs :: string
    using d [of P xs] by simp
  assume "next_token c cs = Some (tk, rest)"
  then show ?thesis
    using d dd d1 by (auto simp: next_token_def Let_def split: if_splits)
qed

lemma try_body_math_cos: "try_body t ''math.cos(t)'' = Returns (cos t)"
  by (simp add: try_body_def ev_defs lex_defs eval_nat_numeral)

lemma try_body_math_sin: "try_body t ''math.sin(t)'' = Returns (sin t)"
  by (simp add: try_body_def ev_defs lex_defs eval_nat_numeral)

lemma try_body_neg_math_sin: "try_body t ''-math.sin(t)'' = Returns (- sin t)"
  by (simp add: try_body_def ev_defs lex_defs eval_nat_numeral)


lemma try_body_cos: "try_body t ''cos(t)'' = Raises NameError"
  by (simp add: try_body_def ev_defs lex_defs eval_nat_numeral)

lemma try_body_sin: "try_body t ''sin(t)'' = Raises NameError"
  by (simp add: try_body_def ev_defs lex_defs eval_nat_numeral)

lemma try_body_neg_sin: "try_body t ''-sin(t)'' = Raises NameError"
  by (simp add: try_body_def ev_defs lex_defs eval_nat_numeral)








text \<open>More of the fragment: precedence and association, mixed arithmetic, a domain error,
  and two sources outside it.\<close>

lemma try_body_examples:
  "try_body t ''1/4 + 2.5*t'' = Returns (1 / 4 + 5 / 2 * t)"
  "try_body t ''8 - 2 - 1'' = Returns 5"
  "try_body t ''-(t + 1) * 2'' = Returns (- (t + 1) * 2)"
  "try_body t ''math.sqrt(0 - 1)'' = Raises ValueError"
  "try_body t ''math.cos(1, 2)'' = Raises TypeError"
  "try_body t ''t(1/0)'' = Raises ZeroDivisionError"
  "try_body t ''math.floor(t)'' = Unsupported"
  "try_body t ''not(t)'' = Unsupported"
  by (simp_all add: try_body_def ev_defs lex_defs eval_nat_numeral)



















lemma safe_eval_of_try_body:
  "try_body t s = Returns x \<Longrightarrow> safe_eval t s = Returns x"
  "try_body t s = Raises e \<Longrightarrow> is_Exception e \<Longrightarrow> safe_eval t s = Returns 0"
  by (simp_all add: safe_eval_def)

lemma identity4_rows: "identity4 = [[1, 0, 0, 0], [0, 1, 0, 0], [0, 0, 1, 0], [0, 0, 0, 1]]"
  by (simp add: identity4_def eval_nat_numeral)

lemma one_minus_cos_le: "1 - cos (u::real) \<le> \<bar>u\<bar>"
proof -
  have c: "cos u = 1 - 2 * (sin (u / 2))\<^sup>2"
    using cos_double_sin [of "u / 2"] by simp
  have a: "\<bar>sin (u / 2)\<bar> \<le> \<bar>u / 2\<bar>"
    by (rule abs_sin_x_le_abs_x)
  have b: "\<bar>sin (u / 2)\<bar> \<le> 1"
    by simp
  have "(sin (u / 2))\<^sup>2 = \<bar>sin (u / 2)\<bar> * \<bar>sin (u / 2)\<bar>"
    by (simp add: power2_eq_square)
  also have "\<dots> \<le> 1 * \<bar>u / 2\<bar>"
    using a b by (intro mult_mono) simp_all
  finally show ?thesis
    using c by simp
qed

lemma near_quarter_turn:
  fixes t :: real
  assumes "\<bar>t - pi / 2\<bar> \<le> eps"
  shows "\<bar>cos t\<bar> \<le> eps" and "\<bar>sin t - 1\<bar> \<le> eps"
proof -
  have "cos t = sin (pi / 2 - t)"
    by (simp add: sin_diff)
  then have "\<bar>cos t\<bar> \<le> \<bar>pi / 2 - t\<bar>"
    using abs_sin_x_le_abs_x [of "pi / 2 - t"] by simp
  then show "\<bar>cos t\<bar> \<le> eps"
    using assms by linarith
  have "sin t = cos (t - pi / 2)"
    by (simp add: cos_diff)
  moreover have "1 - cos (t - pi / 2) \<le> \<bar>t - pi / 2\<bar>"
    by (rule one_minus_cos_le)
  moreover have "cos (t - pi / 2) \<le> 1"
    by simp
  ultimately show "\<bar>sin t - 1\<bar> \<le> eps"
    using assms by linarith
qed

lemma frame_transform_returns:
  assumes "safe_eval (now - t0 sh) (a_expr sh) = Returns va"
    and "safe_eval (now - t0 sh) (b_expr sh) = Returns vb"
    and "safe_eval (now - t0 sh) (c_expr sh) = Returns vc"
    and "safe_eval (now - t0 sh) (d_expr sh) = Returns vd"
  shows "frame_transform sh now =
           Returns (build_matrix (va * a_scale sh) (vb * b_scale sh)
                                 (vc * c_scale sh) (vd * d_scale sh))"
  using assms by (simp add: frame_transform_def obind_def Let_def)







subsection \<open>The frame transform\<close>

lemma safe_eval_defaults:
  "safe_eval t ''math.cos(t)'' = Returns (cos t)"
  "safe_eval t ''math.sin(t)'' = Returns (sin t)"
  "safe_eval t ''-math.sin(t)'' = Returns (- sin t)"
  by (simp_all add: safe_eval_of_try_body try_body_math_cos try_body_math_sin
      try_body_neg_math_sin)

lemma safe_eval_bare:
  "safe_eval t ''cos(t)'' = Returns 0"
  "safe_eval t ''sin(t)'' = Returns 0"
  "safe_eval t ''-sin(t)'' = Returns 0"
  by (simp_all add: safe_eval_of_try_body try_body_cos try_body_sin try_body_neg_sin)

text \<open>
  C3 (as amended). With the expression strings \<^verbatim>\<open>math.cos(t)\<close>, \<^verbatim>\<open>math.sin(t)\<close>,
  \<^verbatim>\<open>-math.sin(t)\<close>, \<^verbatim>\<open>math.cos(t)\<close> (the defaults of the control panel) and all four scale
  factors 1, the frame transform at elapsed time \<open>t\<close> is the matrix with \<open>a = cos t\<close>,
  \<open>b = sin t\<close>, \<open>c = - sin t\<close>, \<open>d = cos t\<close>: the identity at \<open>t = 0\<close>, and \<open>a = 0\<close>, \<open>b = 1\<close>,
  \<open>c = -1\<close>, \<open>d = 0\<close> at \<open>t = \<pi>/2\<close>; for \<open>t\<close> within \<open>eps\<close> of \<open>\<pi>/2\<close> the four entries are
  within \<open>eps\<close> of these values.
\<close>

theorem default_frame_transform:
  assumes "a_expr sh = ''math.cos(t)''" and "b_expr sh = ''math.sin(t)''"
    and "c_expr sh = ''-math.sin(t)''" and "d_expr sh = ''math.cos(t)''"
    and "a_scale sh = 1" and "b_scale sh = 1" and "c_scale sh = 1" and "d_scale sh = 1"
  shows "frame_transform sh now =
           Returns (build_matrix (cos (now - t0 sh)) (sin (now - t0 sh))
                                 (- sin (now - t0 sh)) (cos (now - t0 sh)))
         \<and> (now - t0 sh = 0 \<longrightarrow> frame_transform sh now = Returns identity4)
         \<and> (now - t0 sh = pi / 2 \<longrightarrow>
              frame_transform sh now = Returns (build_matrix 0 1 (- 1) 0))
         \<and> (\<bar>now - t0 sh - pi / 2\<bar> \<le> eps \<longrightarrow>
              \<bar>cos (now - t0 sh) - 0\<bar> \<le> eps \<and> \<bar>sin (now - t0 sh) - 1\<bar> \<le> eps
              \<and> \<bar>- sin (now - t0 sh) - (- 1)\<bar> \<le> eps)"
proof -
  have m: "frame_transform sh now =
      Returns (build_matrix (cos (now - t0 sh)) (sin (now - t0 sh))
                            (- sin (now - t0 sh)) (cos (now - t0 sh)))"
    using assms frame_transform_returns [of now sh "cos (now - t0 sh)" "sin (now - t0 sh)"
        "- sin (now - t0 sh)" "cos (now - t0 sh)"]
    by (simp add: safe_eval_defaults)
  have z: "now - t0 sh = 0 \<longrightarrow> frame_transform sh now = Returns identity4"
    using m by (auto simp: build_matrix_def identity4_rows)
  have q: "now - t0 sh = pi / 2 \<longrightarrow>
      frame_transform sh now = Returns (build_matrix 0 1 (- 1) 0)"
  proof
    assume h: "now - t0 sh = pi / 2"
    show "frame_transform sh now = Returns (build_matrix 0 1 (- 1) 0)"
      unfolding m h by simp
  qed
  have n: "\<bar>now - t0 sh - pi / 2\<bar> \<le> eps \<longrightarrow>
      \<bar>cos (now - t0 sh) - 0\<bar> \<le> eps \<and> \<bar>sin (now - t0 sh) - 1\<bar> \<le> eps
      \<and> \<bar>- sin (now - t0 sh) - (- 1)\<bar> \<le> eps"
    using near_quarter_turn [of "now - t0 sh" eps] by (simp add: abs_minus_commute)
  from m z q n show ?thesis
    by blast
qed

theorem default_frame_transform_witness:
  "a_expr (make_controls 0) = ''math.cos(t)'' \<and> b_expr (make_controls 0) = ''math.sin(t)''
   \<and> c_expr (make_controls 0) = ''-math.sin(t)'' \<and> d_expr (make_controls 0) = ''math.cos(t)''
   \<and> a_scale (make_controls 0) = 1 \<and> b_scale (make_controls 0) = 1
   \<and> c_scale (make_controls 0) = 1 \<and> d_scale (make_controls 0) = 1
   \<and> frame_transform (make_controls 0) 0 = Returns identity4
   \<and> frame_transform (make_controls 0) (pi / 2) = Returns (build_matrix 0 1 (- 1) 0)
   \<and> \<bar>cos (pi / 2 + 1 / 1000)\<bar> \<le> 1 / 1000
   \<and> \<bar>sin (pi / 2 + 1 / 1000) - 1\<bar> \<le> 1 / 1000"
proof -
  have d: "a_expr (make_controls 0) = ''math.cos(t)''" "b_expr (make_controls 0) = ''math.sin(t)''"
    "c_expr (make_controls 0) = ''-math.sin(t)''" "d_expr (make_controls 0) = ''math.cos(t)''"
    "a_scale (make_controls 0) = 1" "b_scale (make_controls 0) = 1"
    "c_scale (make_controls 0) = 1" "d_scale (make_controls 0) = 1"
    "t0 (make_controls 0) = 0"
    by (simp_all add: make_controls_def)
  show ?thesis
    using default_frame_transform [OF d(1-8), of 0 0]
      default_frame_transform [OF d(1-8), of "pi / 2" 0]
      default_frame_transform [OF d(1-8), of "pi / 2 + 1 / 1000" "1 / 1000"]
    by (simp add: d build_matrix_def identity4_rows)
qed

theorem bare_names_zero_block:
  "frame_transform
     ((make_controls 0)\<lparr>a_expr := ''cos(t)'', b_expr := ''sin(t)'',
                         c_expr := ''-sin(t)'', d_expr := ''cos(t)''\<rparr>) 0 =
     Returns [[0, 0, 0, 0], [0, 0, 0, 0], [0, 0, 1, 0], [0, 0, 0, 1]]
   \<and> frame_transform
     ((make_controls 0)\<lparr>a_expr := ''cos(t)'', b_expr := ''sin(t)'',
                         c_expr := ''-sin(t)'', d_expr := ''cos(t)''\<rparr>) 0 \<noteq>
     Returns identity4"
  by (simp add: frame_transform_def obind_def Let_def make_controls_def safe_eval_bare
      build_matrix_def identity4_rows)



subsection \<open>The vector\<close>

lemma arctan_quotient:
  fixes x y :: real
  assumes "x \<noteq> 0"
  shows "cos (arctan (y / x)) = \<bar>x\<bar> / sqrt (x\<^sup>2 + y\<^sup>2)"
    and "sin (arctan (y / x)) = (y / x) * \<bar>x\<bar> / sqrt (x\<^sup>2 + y\<^sup>2)"
proof -
  have "1 + (y / x)\<^sup>2 = (x\<^sup>2 + y\<^sup>2) / x\<^sup>2"
    using assms by (simp add: power_divide add_divide_distrib)
  then have s: "sqrt (1 + (y / x)\<^sup>2) = sqrt (x\<^sup>2 + y\<^sup>2) / \<bar>x\<bar>"
    by (simp add: real_sqrt_divide)
  show "cos (arctan (y / x)) = \<bar>x\<bar> / sqrt (x\<^sup>2 + y\<^sup>2)"
    by (simp add: cos_arctan s)
  show "sin (arctan (y / x)) = (y / x) * \<bar>x\<bar> / sqrt (x\<^sup>2 + y\<^sup>2)"
    by (simp add: sin_arctan s)
qed

lemma atan2_cos_sin:
  assumes "x \<noteq> 0 \<or> y \<noteq> 0"
  shows "cos (atan2 y x) = x / sqrt (x\<^sup>2 + y\<^sup>2)"
    and "sin (atan2 y x) = y / sqrt (x\<^sup>2 + y\<^sup>2)"
proof -
  consider "0 < x" | "x < 0" | "x = 0" "0 < y" | "x = 0" "y < 0"
    using assms by linarith
  then have "cos (atan2 y x) = x / sqrt (x\<^sup>2 + y\<^sup>2)
      \<and> sin (atan2 y x) = y / sqrt (x\<^sup>2 + y\<^sup>2)"
  proof cases
    case 1
    then show ?thesis
      using arctan_quotient [of x y] by (simp add: atan2_def)
  next
    case 2
    then show ?thesis
      using arctan_quotient [of x y] by (simp add: atan2_def)
  next
    case 3
    then show ?thesis by (simp add: atan2_def)
  next
    case 4
    then show ?thesis by (simp add: atan2_def)
  qed
  then show "cos (atan2 y x) = x / sqrt (x\<^sup>2 + y\<^sup>2)"
    and "sin (atan2 y x) = y / sqrt (x\<^sup>2 + y\<^sup>2)"
    by simp_all
qed

lemma atan2_range: "- pi < atan2 y x \<and> atan2 y x \<le> pi"
proof -
  have b: "- (pi / 2) < arctan (y / x)" "arctan (y / x) < pi / 2"
    by (rule arctan_lbound, rule arctan_ubound)
  have z: "0 \<le> y \<Longrightarrow> x < 0 \<Longrightarrow> arctan (y / x) \<le> 0"
    by (simp add: divide_nonneg_neg zero_le_arctan_iff arctan_le_zero_iff)
  have p: "y < 0 \<Longrightarrow> x < 0 \<Longrightarrow> 0 < arctan (y / x)"
    by (simp add: divide_neg_neg)
  show ?thesis
    using b z p pi_gt_zero by (auto simp: atan2_def)
qed




subsection \<open>The uploaded transform\<close>

lemma concat_build_matrix:
  "concat (build_matrix a b c d) = [a, b, 0, 0, c, d, 0, 0, 0, 0, 1, 0, 0, 0, 0, 1]"
  by (simp add: build_matrix_def)


lemma mat4_of_buffer_rows:
  "mat4_of_buffer True (concat (build_matrix a b c d)) = build_matrix a b c d"
  by (simp add: concat_build_matrix mat4_of_buffer_def) (simp add: build_matrix_def)









subsection \<open>The loop\<close>

lemma paused_iteration:
  "paused sh \<Longrightarrow> iteration sh now = Returns (sh, [PollEvents, Sleep (1 / 100)])"
  by (simp add: iteration_def)

lemma paused_render_loop:
  "list_all (\<lambda>(should_close, sh, now). paused sh) inputs \<Longrightarrow>
     \<exists>acts. render_loop inputs g = Returns (g, acts)
        \<and> set acts \<subseteq> {PollEvents, Sleep (1 / 100), Terminate}"
proof (induction inputs)
  case Nil
  then show ?case by simp
next
  case (Cons inp inputs)
  obtain should_close sh now where inp: "inp = (should_close, sh, now)"
    by (cases inp)
  from Cons.prems have p: "paused sh"
    and rest: "list_all (\<lambda>(should_close, sh, now). paused sh) inputs"
    by (simp_all add: inp)
  from Cons.IH [OF rest] obtain acts where
    acts: "render_loop inputs g = Returns (g, acts)"
      "set acts \<subseteq> {PollEvents, Sleep (1 / 100), Terminate}"
    by blast
  show ?case
    using acts by (cases should_close) (simp_all add: inp paused_iteration [OF p])
qed

text \<open>
  C8. An iteration that finds the pause flag set polls the events, sleeps for 10 ms and does
  nothing else. So while every iteration finds the flag set, whatever the clock reads, the
  loop performs only polls and sleeps (and the final termination): \<^verbatim>\<open>safe_eval\<close> is not
  called, no uniform is set, nothing is cleared, drawn or presented, and the state of the
  pipeline, the frame on screen included, is what it was before.
\<close>

theorem paused_loop_idles:
  "(paused sh \<longrightarrow> iteration sh now = Returns (sh, [PollEvents, Sleep (1 / 100)]))
   \<and> (list_all (\<lambda>(should_close, sh, now). paused sh) inputs \<longrightarrow>
        (\<exists>acts. render_loop inputs g = Returns (g, acts)
           \<and> set acts \<subseteq> {PollEvents, Sleep (1 / 100), Terminate}))"
  using paused_iteration [of sh now] paused_render_loop [of inputs g] by blast

theorem paused_loop_idles_witness:
  "paused ((make_controls 0)\<lparr>paused := True\<rparr>)
   \<and> iteration ((make_controls 0)\<lparr>paused := True\<rparr>) 1000 =
       Returns (((make_controls 0)\<lparr>paused := True\<rparr>), [PollEvents, Sleep (1 / 100)])
   \<and> list_all (\<lambda>(should_close, sh, now). paused sh)
       [(False, ((make_controls 0)\<lparr>paused := True\<rparr>), 1), (False, ((make_controls 0)\<lparr>paused := True\<rparr>), 1000), (True, ((make_controls 0)\<lparr>paused := True\<rparr>), 2000)]
   \<and> render_loop [(False, ((make_controls 0)\<lparr>paused := True\<rparr>), 1), (False, ((make_controls 0)\<lparr>paused := True\<rparr>), 1000), (True, ((make_controls 0)\<lparr>paused := True\<rparr>), 2000)]
         \<lparr>uTransform = [], uColor = (0, 0, 0), array_buffer = vbo_grid,
             attrib_buffer = vbo_grid, back_buffer = [], front_buffer = []\<rparr> =
       Returns (\<lparr>uTransform = [], uColor = (0, 0, 0), array_buffer = vbo_grid,
             attrib_buffer = vbo_grid, back_buffer = [], front_buffer = []\<rparr>,
                [PollEvents, Sleep (1 / 100), PollEvents, Sleep (1 / 100), Terminate])"
  using paused_loop_idles [of "((make_controls 0)\<lparr>paused := True\<rparr>)" 1000
      "[(False, ((make_controls 0)\<lparr>paused := True\<rparr>), 1), (False, ((make_controls 0)\<lparr>paused := True\<rparr>), 1000), (True, ((make_controls 0)\<lparr>paused := True\<rparr>), 2000)]"
      "\<lparr>uTransform = [], uColor = (0, 0, 0), array_buffer = vbo_grid,
             attrib_buffer = vbo_grid, back_buffer = [], front_buffer = []\<rparr>"]
  by (simp add: paused_iteration)



end
